theory Spec2Isabelle
  imports Complex_Main
begin

section \<open>The MemWatch dashboard server\<close>

text \<open>
  A shallow embedding of the class \<open>MemWatchDashboard\<close>: the in-memory stores of the
  server, the handlers of the agent messages, the close handler of a socket, the
  periodic sweep and the comparison of two snapshots. Each handler takes the state of the
  server and returns the new one.

  Conventions of the embedding.
  \<^item> A WebSocket object is a number; \<open>===\<close> on sockets is equality of the numbers.
  \<^item> \<open>Date.now()\<close> and \<open>Math.random()\<close> are read from the environment and
    handed to the handler; \<open>Date.now() + Math.random()\<close> is their exact sum.
  \<^item> \<open>broadcastToClients\<close> appends the event to the log \<open>published\<close>, one entry for
    each call; the delivery to the single subscribers is not modelled.
  \<^item> Writing a file stores its content in the map \<open>files\<close>; whether the calls of
    \<open>fs\<close> succeed or throw is read from the environment, and a write that throws
    stores nothing.
  \<^item> A frame sent to one socket alone (the \<open>initial\<close> frame, the error frame after
    an exception in a handler) is not modelled.
  \<^item> Text built by a template literal from numbers is kept as a structured value
    (\<open>alert_message\<close>, \<open>session_id\<close>, \<open>fs_path\<close>), not rendered.
\<close>

subsection \<open>Data\<close>

type_synonym conn = nat

datatype service_status = Connected | Disconnected

record ServiceInfo =
  svc_name :: string
  svc_status :: service_status
  svc_connection :: conn
  svc_registeredAt :: int
  svc_lastSeen :: int
  svc_totalAlerts :: nat

record MetricData =
  m_service :: string
  m_heapUsedMB :: rat
  m_heapTotalMB :: rat
  m_rssMB :: rat
  m_externalMB :: rat
  m_eventLoopDelayMs :: rat
  m_timestamp :: int
  m_leakDetected :: bool
  m_memoryGrowthMB :: rat

datatype alert_type = Leak | SnapshotNotice

datatype severity = Critical | Warning | Info

text \<open>The three message templates of an alert, with the values they interpolate.\<close>

datatype alert_message =
    HeapSnapshotGenerated string
  | LeakDetectedHeap rat rat
  | LeakDetectedGrowth rat

record Alert =
  alert_id :: rat
  alert_service :: string
  alert_type :: alert_type
  alert_message :: alert_message
  alert_timestamp :: int
  alert_severity :: severity
  alert_heapUsedMB :: "rat option"
  alert_memoryGrowthMB :: "rat option"
  alert_filename :: "string option"
  alert_filepath :: "string option"

datatype phase = Before | After

text \<open>
  \<open>chunks\<close> is a JavaScript array of strings: a list whose holes are \<open>None\<close>.
\<close>

record SnapshotData =
  snap_id :: string
  snap_serviceName :: string
  snap_containerId :: string
  snap_phase :: phase
  snap_timestamp :: string
  snap_size :: int
  snap_filename :: string
  snap_data :: "string option"
  snap_chunks :: "string option list option"
  snap_totalChunks :: "nat option"
  snap_receivedChunks :: "nat option"

text \<open>
  What the handler reads of an analysis result: \<open>summary.suspiciousGrowth\<close> and
  \<open>summary.totalGrowthMB\<close>. The summary of \<open>MemlabHeapAnalyzer\<close> has no field
  \<open>totalGrowthMB\<close> (\<open>None\<close>); the summary of \<open>HeapSnapshotAnalyzer\<close> has one.
\<close>

record analysis =
  an_suspiciousGrowth :: bool
  an_totalGrowthMB :: "rat option"

datatype outcome = Returned analysis | Threw string

datatype session_status = Waiting | Analyzing | Completed | Failed

text \<open>The identifier \<open>comparison_<serviceName>_<Date.now()>\<close>.\<close>

datatype session_id = ComparisonId string int

record ComparisonSession =
  sess_id :: session_id
  sess_serviceName :: string
  sess_containerId :: string
  sess_beforeSnapshotId :: string
  sess_afterSnapshotId :: string
  sess_timeframe :: int
  sess_status :: session_status
  sess_result :: "analysis option"
  sess_createdAt :: int

datatype IncomingMessage =
    Registration string int
  | Metrics MetricData
  | Snapshot string string string int
  | CaptureAgentRegistration string string int
  | SnapshotMetadata SnapshotData
  | SnapshotChunk string nat nat string
  | SnapshotComplete string
  | ComparisonReady string string string string int string
  | UnknownType

text \<open>The file \<open>path.join(dir, name)\<close>.\<close>

datatype fs_path = PathJoin string string

text \<open>The events handed to \<open>broadcastToClients\<close>, named by their \<open>type\<close> field.\<close>

datatype event =
    serviceRegistered string int
  | serviceUpdate string service_status
  | metricsUpdate MetricData
  | snapshotAlert Alert
  | leakAlert Alert
  | captureAgentRegistered string string int
  | snapshotStarted string string phase string int
  | snapshotProgress string nat nat
  | snapshotCompleted string string phase string int fs_path
  | comparisonStarted session_id string string string
  | comparisonCompleted session_id string analysis
  | comparisonFailed session_id string string
  | comparisonPending session_id string bool bool

text \<open>
  A call of \<open>performSnapshotAnalysis\<close> that has not returned yet, with what the rest of
  \<open>handleComparisonReady\<close> holds on to: the session object, its identifier and the
  service name.
\<close>

record pending_analysis =
  pa_session :: nat
  pa_sessionId :: session_id
  pa_serviceName :: string

text \<open>
  The fields of the class, then the world around it. \<open>services\<close> keeps the insertion
  order of the JavaScript \<open>Map\<close>, which the close handler iterates. A comparison
  session is an object on the heap \<open>sessionObjects\<close>; \<open>comparisonSessions\<close> maps an
  identifier to the object stored under it.
\<close>

record dashboard =
  services :: "(string \<times> ServiceInfo) list"
  metrics :: "string \<rightharpoonup> MetricData list"
  alerts :: "Alert list"
  dashboardClients :: "conn set"
  snapshots :: "string \<rightharpoonup> SnapshotData"
  comparisonSessions :: "session_id \<rightharpoonup> nat"
  alertCounter :: nat
  sessionObjects :: "ComparisonSession list"
  pending :: "pending_analysis list"
  published :: "event list"
  files :: "fs_path \<rightharpoonup> string"

definition new_dashboard :: dashboard where
  "new_dashboard =
     \<lparr>services = [], metrics = Map.empty, alerts = [], dashboardClients = {},
      snapshots = Map.empty, comparisonSessions = Map.empty, alertCounter = 1,
      sessionObjects = [], pending = [], published = [], files = Map.empty\<rparr>"

text \<open>
  The readings of \<open>Date.now()\<close> (first and second) and of \<open>Math.random()\<close>, and
  whether the calls of \<open>fs\<close> in the handler succeed (\<open>mkdirSync\<close> and
  \<open>writeFileSync\<close> throw for a path that cannot be written, such as the empty
  filename, which names the directory itself).
\<close>

record env =
  env_now :: int
  env_now2 :: int
  env_random :: rat
  env_write_ok :: bool

subsection \<open>JavaScript containers\<close>

text \<open>\<open>Map.prototype.set\<close>: an existing key keeps its place, a new key goes last.\<close>

fun map_set :: "'k \<Rightarrow> 'v \<Rightarrow> ('k \<times> 'v) list \<Rightarrow> ('k \<times> 'v) list" where
  "map_set k v [] = [(k, v)]"
| "map_set k v ((k', v') # kvs) =
     (if k' = k then (k, v) # kvs else (k', v') # map_set k v kvs)"

text \<open>
  \<open>arr[i] = v\<close> for an array index \<open>i\<close>: in range it overwrites, out of range the
  array grows to length \<open>i + 1\<close> and the new places in between are holes.
\<close>

definition array_set :: "'a option list \<Rightarrow> nat \<Rightarrow> 'a \<Rightarrow> 'a option list" where
  "array_set arr i v =
     (if i < length arr then arr[i := Some v]
      else arr @ replicate (i - length arr) None @ [Some v])"

text \<open>\<open>arr.join('')\<close>: a hole contributes the empty string.\<close>

definition js_join :: "string option list \<Rightarrow> string" where
  "js_join arr = concat (map (\<lambda>c. case c of None \<Rightarrow> [] | Some s \<Rightarrow> s) arr)"

subsection \<open>Publishing and the alert ring\<close>

definition broadcastToClients :: "event \<Rightarrow> dashboard \<Rightarrow> dashboard" where
  "broadcastToClients message st = st\<lparr>published := published st @ [message]\<rparr>"

definition trimAlerts :: "dashboard \<Rightarrow> dashboard" where
  "trimAlerts st =
     (if length (alerts st) > 100
      then st\<lparr>alerts := drop (length (alerts st) - 100) (alerts st)\<rparr>
      else st)"

subsection \<open>Registration, metrics and alerts\<close>

definition handleServiceRegistration :: "conn \<Rightarrow> string \<Rightarrow> int \<Rightarrow> dashboard \<Rightarrow> dashboard" where
  "handleServiceRegistration ws service timestamp st =
     (let st1 = st\<lparr>services := map_set service
                   \<lparr>svc_name = service, svc_status = Connected, svc_connection = ws,
                    svc_registeredAt = timestamp, svc_lastSeen = timestamp,
                    svc_totalAlerts = 0\<rparr> (services st)\<rparr>;
          st2 = (if metrics st1 service = None
                 then st1\<lparr>metrics := (metrics st1)(service \<mapsto> [])\<rparr> else st1)
      in broadcastToClients (serviceRegistered service timestamp) st2)"

definition handleLeakAlert :: "MetricData \<Rightarrow> env \<Rightarrow> dashboard \<Rightarrow> dashboard" where
  "handleLeakAlert m e st =
     (let st1 = (case map_of (services st) (m_service m) of
                   None \<Rightarrow> st
                 | Some serviceInfo \<Rightarrow>
                     st\<lparr>services := map_set (m_service m)
                          (serviceInfo\<lparr>svc_totalAlerts := svc_totalAlerts serviceInfo + 1\<rparr>)
                          (services st)\<rparr>);
          alert = \<lparr>alert_id = of_int (env_now e) + env_random e,
                   alert_service = m_service m, alert_type = Leak,
                   alert_message = LeakDetectedHeap (m_heapUsedMB m) (m_memoryGrowthMB m),
                   alert_timestamp = m_timestamp m, alert_severity = Critical,
                   alert_heapUsedMB = Some (m_heapUsedMB m),
                   alert_memoryGrowthMB = Some (m_memoryGrowthMB m),
                   alert_filename = None, alert_filepath = None\<rparr>
      in broadcastToClients (leakAlert alert)
           (trimAlerts (st1\<lparr>alerts := alerts st1 @ [alert]\<rparr>)))"

text \<open>\<open>this.metrics.get(service) || []\<close>: the ring of a service, empty when it has none.\<close>

definition serviceMetrics :: "dashboard \<Rightarrow> string \<Rightarrow> MetricData list" where
  "serviceMetrics st service = (case metrics st service of None \<Rightarrow> [] | Some ms \<Rightarrow> ms)"

text \<open>
  The sample is pushed onto the ring and, when the ring then holds more than 1000, the
  first one is shifted out.
\<close>

definition handleMetrics :: "conn \<Rightarrow> MetricData \<Rightarrow> env \<Rightarrow> dashboard \<Rightarrow> dashboard" where
  "handleMetrics ws message e st =
     (let service = m_service message;
          st1 = (case map_of (services st) service of
                   None \<Rightarrow> st
                 | Some serviceInfo \<Rightarrow>
                     st\<lparr>services := map_set service
                          (serviceInfo\<lparr>svc_lastSeen := m_timestamp message,
                                       svc_status := Connected\<rparr>) (services st)\<rparr>);
          pushed = serviceMetrics st1 service @ [message];
          shifted = (if length pushed > 1000 then tl pushed else pushed);
          st2 = st1\<lparr>metrics := (metrics st1)(service \<mapsto> shifted)\<rparr>;
          st3 = (if m_leakDetected message then handleLeakAlert message e st2 else st2)
      in broadcastToClients (metricsUpdate message) st3)"

definition handleSnapshot ::
  "conn \<Rightarrow> string \<Rightarrow> string \<Rightarrow> string \<Rightarrow> int \<Rightarrow> env \<Rightarrow> dashboard \<Rightarrow> dashboard" where
  "handleSnapshot ws service filename filepath timestamp e st =
     (let alert = \<lparr>alert_id = of_int (env_now e) + env_random e,
                   alert_service = service, alert_type = SnapshotNotice,
                   alert_message = HeapSnapshotGenerated filename,
                   alert_timestamp = timestamp, alert_severity = Info,
                   alert_heapUsedMB = None, alert_memoryGrowthMB = None,
                   alert_filename = Some filename, alert_filepath = Some filepath\<rparr>
      in broadcastToClients (snapshotAlert alert)
           (trimAlerts (st\<lparr>alerts := alerts st @ [alert]\<rparr>)))"

definition handleCaptureAgentRegistration ::
  "conn \<Rightarrow> string \<Rightarrow> string \<Rightarrow> int \<Rightarrow> dashboard \<Rightarrow> dashboard" where
  "handleCaptureAgentRegistration ws serviceName containerId timestamp st =
     broadcastToClients (captureAgentRegistered serviceName containerId timestamp)
       (st\<lparr>services := map_set (''capture-'' @ serviceName)
             \<lparr>svc_name = ''capture-'' @ serviceName, svc_status = Connected,
              svc_connection = ws, svc_registeredAt = timestamp, svc_lastSeen = timestamp,
              svc_totalAlerts = 0\<rparr> (services st)\<rparr>)"

subsection \<open>Chunked snapshots\<close>

definition handleSnapshotMetadata :: "conn \<Rightarrow> SnapshotData \<Rightarrow> dashboard \<Rightarrow> dashboard" where
  "handleSnapshotMetadata ws snapshot st =
     broadcastToClients
       (snapshotStarted (snap_id snapshot) (snap_serviceName snapshot) (snap_phase snapshot)
          (snap_timestamp snapshot) (snap_size snapshot))
       (st\<lparr>snapshots := (snapshots st)(snap_id snapshot \<mapsto>
             snapshot\<lparr>snap_chunks := Some [], snap_receivedChunks := Some 0\<rparr>)\<rparr>)"

text \<open>
  \<open>chunkIndex\<close> is an array index. A snapshot without a chunk table gets one of
  \<open>totalChunks\<close> holes; \<open>(snapshot.receivedChunks || 0) + 1\<close> counts the message.
\<close>

definition handleSnapshotChunk ::
  "conn \<Rightarrow> string \<Rightarrow> nat \<Rightarrow> nat \<Rightarrow> string \<Rightarrow> dashboard \<Rightarrow> dashboard" where
  "handleSnapshotChunk ws snapshotId chunkIndex totalChunks data st =
     (case snapshots st snapshotId of
        None \<Rightarrow> st
      | Some snapshot \<Rightarrow>
          (let snapshot1 =
                 (case snap_chunks snapshot of
                    None \<Rightarrow> snapshot\<lparr>snap_chunks := Some (replicate totalChunks None),
                                      snap_totalChunks := Some totalChunks,
                                      snap_receivedChunks := Some 0\<rparr>
                  | Some _ \<Rightarrow> snapshot);
               table = (case snap_chunks snapshot1 of None \<Rightarrow> [] | Some cs \<Rightarrow> cs);
               received = (case snap_receivedChunks snapshot1 of None \<Rightarrow> 0 | Some n \<Rightarrow> n) + 1;
               snapshot2 = snapshot1\<lparr>snap_chunks := Some (array_set table chunkIndex data),
                                     snap_receivedChunks := Some received\<rparr>
           in broadcastToClients (snapshotProgress snapshotId received totalChunks)
                (st\<lparr>snapshots := (snapshots st)(snapshotId \<mapsto> snapshot2)\<rparr>)))"

definition snapshotsDir :: string where
  "snapshotsDir = ''./dashboard-snapshots''"

text \<open>
  The data of the snapshot is set to the join of its chunk table first. Then the file is
  written and \<open>snapshotCompleted\<close> published; the calls of \<open>fs\<close> stand in no
  \<open>try\<close>, so when one of them throws the handler ends there, with the data set, no
  file stored and nothing published.
\<close>

definition handleSnapshotComplete :: "conn \<Rightarrow> string \<Rightarrow> env \<Rightarrow> dashboard \<Rightarrow> dashboard" where
  "handleSnapshotComplete ws snapshotId e st =
     (case snapshots st snapshotId of
        None \<Rightarrow> st
      | Some snapshot \<Rightarrow>
          (case snap_chunks snapshot of
             None \<Rightarrow> st
           | Some cs \<Rightarrow>
               (let d = js_join cs;
                    st1 = st\<lparr>snapshots := (snapshots st)(snapshotId \<mapsto>
                               snapshot\<lparr>snap_data := Some d\<rparr>)\<rparr>;
                    filepath = PathJoin snapshotsDir (snap_filename snapshot)
                in if env_write_ok e
                   then broadcastToClients
                          (snapshotCompleted (snap_id snapshot) (snap_serviceName snapshot)
                             (snap_phase snapshot) (snap_timestamp snapshot)
                             (snap_size snapshot) filepath)
                          (st1\<lparr>files := (files st1)(filepath \<mapsto> d)\<rparr>)
                   else st1)))"

subsection \<open>Comparison sessions\<close>

text \<open>The test \<open>snapshot?.data\<close>: the snapshot exists and its data is a non-empty string.\<close>

definition has_data :: "SnapshotData option \<Rightarrow> bool" where
  "has_data s =
     (case s of
        None \<Rightarrow> False
      | Some snapshot \<Rightarrow> (case snap_data snapshot of None \<Rightarrow> False | Some d \<Rightarrow> d \<noteq> []))"

definition set_session :: "nat \<Rightarrow> (ComparisonSession \<Rightarrow> ComparisonSession) \<Rightarrow> dashboard \<Rightarrow> dashboard" where
  "set_session r f st =
     (if r < length (sessionObjects st)
      then st\<lparr>sessionObjects := (sessionObjects st)[r := f (sessionObjects st ! r)]\<rparr>
      else st)"

text \<open>
  \<open>handleComparisonReady\<close> up to its \<open>await\<close>: the session is created and stored;
  with both snapshots at hand it turns to analyzing, publishes \<open>comparisonStarted\<close> and
  calls \<open>performSnapshotAnalysis\<close>, which is then pending; otherwise it publishes
  \<open>comparisonPending\<close> and returns.
\<close>

definition handleComparisonReady ::
  "conn \<Rightarrow> string \<Rightarrow> string \<Rightarrow> string \<Rightarrow> string \<Rightarrow> int \<Rightarrow> env \<Rightarrow> dashboard \<Rightarrow> dashboard" where
  "handleComparisonReady ws serviceName containerId beforeSnapshotId afterSnapshotId timeframe e st =
     (let sessionId = ComparisonId serviceName (env_now e);
          session = \<lparr>sess_id = sessionId, sess_serviceName = serviceName,
                     sess_containerId = containerId,
                     sess_beforeSnapshotId = beforeSnapshotId,
                     sess_afterSnapshotId = afterSnapshotId, sess_timeframe = timeframe,
                     sess_status = Waiting, sess_result = None,
                     sess_createdAt = env_now2 e\<rparr>;
          r = length (sessionObjects st);
          st1 = st\<lparr>sessionObjects := sessionObjects st @ [session],
                   comparisonSessions := (comparisonSessions st)(sessionId \<mapsto> r)\<rparr>;
          beforeSnapshot = snapshots st1 beforeSnapshotId;
          afterSnapshot = snapshots st1 afterSnapshotId
      in if has_data beforeSnapshot \<and> has_data afterSnapshot
         then (let st2 = set_session r (\<lambda>s. s\<lparr>sess_status := Analyzing\<rparr>) st1;
                   st3 = broadcastToClients
                           (comparisonStarted sessionId serviceName beforeSnapshotId
                              afterSnapshotId) st2
               in st3\<lparr>pending := pending st3 @
                         [\<lparr>pa_session = r, pa_sessionId = sessionId,
                           pa_serviceName = serviceName\<rparr>]\<rparr>)
         else broadcastToClients
                (comparisonPending sessionId serviceName (\<not> has_data beforeSnapshot)
                   (\<not> has_data afterSnapshot)) st1)"

text \<open>The \<open>catch\<close> block: the session fails and \<open>comparisonFailed\<close> is published.\<close>

definition comparison_catch :: "pending_analysis \<Rightarrow> string \<Rightarrow> dashboard \<Rightarrow> dashboard" where
  "comparison_catch p err st =
     broadcastToClients (comparisonFailed (pa_sessionId p) (pa_serviceName p) err)
       (set_session (pa_session p) (\<lambda>s. s\<lparr>sess_status := Failed\<rparr>) st)"

text \<open>
  The first statements of the \<open>try\<close> block after the \<open>await\<close>: the session is
  completed, the result stored and \<open>comparisonCompleted\<close> published.
\<close>

definition comparison_completed :: "pending_analysis \<Rightarrow> analysis \<Rightarrow> dashboard \<Rightarrow> dashboard" where
  "comparison_completed p a st =
     broadcastToClients (comparisonCompleted (pa_sessionId p) (pa_serviceName p) a)
       (set_session (pa_session p)
          (\<lambda>s. s\<lparr>sess_status := Completed, sess_result := Some a\<rparr>) st)"

definition toFixed_TypeError :: string where
  "toFixed_TypeError = ''Cannot read properties of undefined (reading 'toFixed')''"

text \<open>
  The rest of the \<open>try\<close> block: on suspicious growth an alert is pushed, with no
  \<open>trimAlerts\<close>. The object literal evaluates \<open>this.alertCounter++\<close> first and the
  message next; \<open>totalGrowthMB.toFixed(2)\<close> throws a TypeError when the summary has no
  \<open>totalGrowthMB\<close>, and the \<open>catch\<close> block runs on the session already completed.
\<close>

definition comparison_alert :: "pending_analysis \<Rightarrow> analysis \<Rightarrow> int \<Rightarrow> dashboard \<Rightarrow> dashboard" where
  "comparison_alert p a now st =
     (if an_suspiciousGrowth a
      then (let st1 = st\<lparr>alertCounter := alertCounter st + 1\<rparr>
            in case an_totalGrowthMB a of
                 None \<Rightarrow> comparison_catch p toFixed_TypeError st1
               | Some g \<Rightarrow>
                   st1\<lparr>alerts := alerts st1 @
                        [\<lparr>alert_id = of_nat (alertCounter st),
                          alert_service = pa_serviceName p, alert_type = Leak,
                          alert_message = LeakDetectedGrowth g,
                          alert_timestamp = now,
                          alert_severity = (if g > 50 then Critical else Warning),
                          alert_heapUsedMB = None, alert_memoryGrowthMB = None,
                          alert_filename = None, alert_filepath = None\<rparr>]\<rparr>)
      else st)"

text \<open>
  \<open>handleComparisonReady\<close> after its \<open>await\<close>, on the outcome of
  \<open>performSnapshotAnalysis\<close> and the reading of \<open>Date.now()\<close>.
\<close>

definition handleComparisonReady_resume ::
  "pending_analysis \<Rightarrow> outcome \<Rightarrow> int \<Rightarrow> dashboard \<Rightarrow> dashboard" where
  "handleComparisonReady_resume p out now st =
     (case out of
        Threw err \<Rightarrow> comparison_catch p err st
      | Returned a \<Rightarrow> comparison_alert p a now (comparison_completed p a st))"

subsection \<open>Dispatch, connections and the sweep\<close>

definition handleAgentMessage :: "conn \<Rightarrow> IncomingMessage \<Rightarrow> env \<Rightarrow> dashboard \<Rightarrow> dashboard" where
  "handleAgentMessage ws message e st =
     (case message of
        Registration service timestamp \<Rightarrow> handleServiceRegistration ws service timestamp st
      | Metrics m \<Rightarrow> handleMetrics ws m e st
      | Snapshot service filename filepath timestamp \<Rightarrow>
          handleSnapshot ws service filename filepath timestamp e st
      | CaptureAgentRegistration serviceName containerId timestamp \<Rightarrow>
          handleCaptureAgentRegistration ws serviceName containerId timestamp st
      | SnapshotMetadata snapshot \<Rightarrow> handleSnapshotMetadata ws snapshot st
      | SnapshotChunk snapshotId chunkIndex totalChunks data \<Rightarrow>
          handleSnapshotChunk ws snapshotId chunkIndex totalChunks data st
      | SnapshotComplete snapshotId \<Rightarrow> handleSnapshotComplete ws snapshotId e st
      | ComparisonReady serviceName containerId beforeSnapshotId afterSnapshotId timeframe ts \<Rightarrow>
          handleComparisonReady ws serviceName containerId beforeSnapshotId afterSnapshotId
            timeframe e st
      | UnknownType \<Rightarrow> st)"

text \<open>
  The loop of the close handler over \<open>services.entries()\<close>: the first service whose
  connection is the closed socket is disconnected and named, and the loop breaks.
\<close>

fun disconnect_first ::
  "conn \<Rightarrow> int \<Rightarrow> (string \<times> ServiceInfo) list \<Rightarrow> (string \<times> ServiceInfo) list \<times> string option" where
  "disconnect_first ws now [] = ([], None)"
| "disconnect_first ws now ((serviceName, service) # rest) =
     (if svc_connection service = ws
      then ((serviceName, service\<lparr>svc_status := Disconnected, svc_lastSeen := now\<rparr>) # rest,
            Some serviceName)
      else (case disconnect_first ws now rest of
              (rest', found) \<Rightarrow> ((serviceName, service) # rest', found)))"

definition handleClose :: "conn \<Rightarrow> int \<Rightarrow> dashboard \<Rightarrow> dashboard" where
  "handleClose ws now st =
     (let st1 = st\<lparr>dashboardClients := dashboardClients st - {ws}\<rparr>
      in case disconnect_first ws now (services st1) of
           (services', None) \<Rightarrow> st1
         | (services', Some serviceName) \<Rightarrow>
             broadcastToClients (serviceUpdate serviceName Disconnected)
               (st1\<lparr>services := services'\<rparr>))"

text \<open>
  A new socket whose URL includes \<open>dashboard\<close> joins the dashboard clients; the
  \<open>initial\<close> frame sent to that socket alone is not modelled.
\<close>

definition handleConnection :: "conn \<Rightarrow> bool \<Rightarrow> dashboard \<Rightarrow> dashboard" where
  "handleConnection ws is_dashboard st =
     (if is_dashboard then st\<lparr>dashboardClients := insert ws (dashboardClients st)\<rparr> else st)"

text \<open>The periodic cleanup of \<open>start\<close>: every connected service silent for over a minute.\<close>

definition timed_out :: "int \<Rightarrow> ServiceInfo \<Rightarrow> bool" where
  "timed_out now service = (svc_status service = Connected \<and> now - svc_lastSeen service > 60000)"

definition cleanup :: "int \<Rightarrow> dashboard \<Rightarrow> dashboard" where
  "cleanup now st =
     st\<lparr>services := map (\<lambda>(serviceName, service).
            (serviceName, if timed_out now service
                          then service\<lparr>svc_status := Disconnected\<rparr> else service))
          (services st),
        published := published st @
          map (\<lambda>(serviceName, service). serviceUpdate serviceName Disconnected)
            (filter (\<lambda>(serviceName, service). timed_out now service) (services st))\<rparr>"

subsection \<open>Executions\<close>

text \<open>
  What happens to the server: a socket connects, a message arrives, a socket closes, the
  cleanup timer fires, or a pending analysis returns or throws and the rest of
  \<open>handleComparisonReady\<close> runs.
\<close>

datatype input =
    Connect conn bool
  | Message conn IncomingMessage env
  | Close conn int
  | Sweep int
  | AnalysisDone nat outcome int

definition step :: "input \<Rightarrow> dashboard \<Rightarrow> dashboard" where
  "step i st =
     (case i of
        Connect ws is_dashboard \<Rightarrow> handleConnection ws is_dashboard st
      | Message ws message e \<Rightarrow> handleAgentMessage ws message e st
      | Close ws now \<Rightarrow> handleClose ws now st
      | Sweep now \<Rightarrow> cleanup now st
      | AnalysisDone k out now \<Rightarrow>
          (if k < length (pending st)
           then handleComparisonReady_resume (pending st ! k) out now
                  (st\<lparr>pending := take k (pending st) @ drop (Suc k) (pending st)\<rparr>)
           else st))"

definition run :: "input list \<Rightarrow> dashboard \<Rightarrow> dashboard" where
  "run ins st = fold step ins st"


fun is_snapshotCompleted :: "event \<Rightarrow> bool" where
  "is_snapshotCompleted (snapshotCompleted sid serviceName ph ts sz filepath) = True"
| "is_snapshotCompleted _ = False"


subsection \<open>Notions used by the properties\<close>

text \<open>The metric samples of a service among the inputs, in the order of their arrival.\<close>

fun arrival :: "string \<Rightarrow> input \<Rightarrow> MetricData list" where
  "arrival s (Message ws (Metrics m) e) = (if m_service m = s then [m] else [])"
| "arrival s _ = []"

definition arrivals :: "string \<Rightarrow> input list \<Rightarrow> MetricData list" where
  "arrivals s ins = concat (map (arrival s) ins)"

definition last_n :: "nat \<Rightarrow> 'a list \<Rightarrow> 'a list" where
  "last_n n xs = drop (length xs - n) xs"

text \<open>
  An alert pushed by \<open>handleComparisonReady\<close> is a leak alert without
  \<open>heapUsedMB\<close>; the leak alert of a metrics message carries \<open>heapUsedMB\<close> and the
  snapshot notification is of the other type.
\<close>

definition from_comparison :: "Alert \<Rightarrow> bool" where
  "from_comparison a = (alert_type a = Leak \<and> alert_heapUsedMB a = None)"

definition comparison_ids :: "dashboard \<Rightarrow> rat list" where
  "comparison_ids st = map alert_id (filter from_comparison (alerts st))"

definition ids_inv :: "dashboard \<Rightarrow> bool" where
  "ids_inv st = (sorted_wrt (<) (comparison_ids st) \<and>
     list_all (\<lambda>x. x < of_nat (alertCounter st)) (comparison_ids st))"

text \<open>The chunk messages of a snapshot for the indices \<open>idxs\<close>, in that order.\<close>

definition chunk_inputs ::
  "conn \<Rightarrow> string \<Rightarrow> nat \<Rightarrow> string list \<Rightarrow> env \<Rightarrow> nat list \<Rightarrow> input list" where
  "chunk_inputs ws sid n payloads e idxs =
     map (\<lambda>i. Message ws (SnapshotChunk sid i n (payloads ! i)) e) idxs"

text \<open>
  A chunk table that holds the payloads of the indices in \<open>S\<close>, holes elsewhere, and
  ends at the largest index of \<open>S\<close>.
\<close>

definition table_ok :: "string list \<Rightarrow> string option list \<Rightarrow> nat set \<Rightarrow> bool" where
  "table_ok payloads arr S =
     ((\<forall>i<length arr. arr ! i = (if i \<in> S then Some (payloads ! i) else None)) \<and>
      (\<forall>i\<in>S. i < length arr) \<and> (\<forall>j<length arr. \<exists>i\<in>S. j \<le> i))"

subsection \<open>Example inputs\<close>

definition env0 :: env where
  "env0 = \<lparr>env_now = 1000, env_now2 = 1001, env_random = 0, env_write_ok = True\<rparr>"

text \<open>The same instant with another reading of \<open>Math.random()\<close>; and a write that throws.\<close>

definition env_random_at :: "rat \<Rightarrow> env" where
  "env_random_at r = \<lparr>env_now = 1000, env_now2 = 1001, env_random = r, env_write_ok = True\<rparr>"

definition env_write_throws :: env where
  "env_write_throws = \<lparr>env_now = 1000, env_now2 = 1001, env_random = 0, env_write_ok = False\<rparr>"

definition example_snapshot :: "string \<Rightarrow> phase \<Rightarrow> string \<Rightarrow> nat \<Rightarrow> SnapshotData" where
  "example_snapshot sid ph fname n =
     \<lparr>snap_id = sid, snap_serviceName = ''svc-a'', snap_containerId = ''c1'',
      snap_phase = ph, snap_timestamp = ''t0'', snap_size = 9, snap_filename = fname,
      snap_data = None, snap_chunks = None, snap_totalChunks = Some n,
      snap_receivedChunks = None\<rparr>"

definition example_metric :: "int \<Rightarrow> bool \<Rightarrow> MetricData" where
  "example_metric t leak =
     \<lparr>m_service = ''svc-a'', m_heapUsedMB = 120, m_heapTotalMB = 200, m_rssMB = 300,
      m_externalMB = 5, m_eventLoopDelayMs = 2, m_timestamp = t, m_leakDetected = leak,
      m_memoryGrowthMB = 1\<rparr>"

text \<open>Both snapshots of a pair, each announced, sent in one chunk and completed.\<close>

definition ready_snapshots :: "input list" where
  "ready_snapshots =
     [Message 1 (SnapshotMetadata (example_snapshot ''before_1'' Before ''b.heapsnapshot'' 1)) env0,
      Message 1 (SnapshotChunk ''before_1'' 0 1 ''x'') env0,
      Message 1 (SnapshotComplete ''before_1'') env0,
      Message 1 (SnapshotMetadata (example_snapshot ''after_2'' After ''a.heapsnapshot'' 1)) env0,
      Message 1 (SnapshotChunk ''after_2'' 0 1 ''y'') env0,
      Message 1 (SnapshotComplete ''after_2'') env0]"

definition example_comparison :: input where
  "example_comparison =
     Message 1 (ComparisonReady ''svc-a'' ''c1'' ''before_1'' ''after_2'' 60 ''t1'') env0"

text \<open>
  The before snapshot complete, and an after snapshot that is not: one chunk of three
  and an early completion message; or an announcement that carries a \<open>data\<close> field,
  with no chunk and no completion message.
\<close>

definition early_completed_after :: "input list" where
  "early_completed_after = take 3 ready_snapshots @
     [Message 1 (SnapshotMetadata (example_snapshot ''after_2'' After ''a.heapsnapshot'' 3)) env0,
      Message 1 (SnapshotChunk ''after_2'' 0 3 ''abc'') env0,
      Message 1 (SnapshotComplete ''after_2'') env0]"

definition announced_with_data :: "input list" where
  "announced_with_data = take 3 ready_snapshots @
     [Message 1 (SnapshotMetadata
        ((example_snapshot ''after_2'' After ''a.heapsnapshot'' 3)\<lparr>snap_data := Some ''zzz''\<rparr>))
        env0]"

definition snapshot_notice :: input where
  "snapshot_notice = Message 2 (Snapshot ''svc-a'' ''h.heapsnapshot'' ''/tmp/h.heapsnapshot'' 5) env0"

text \<open>A summary as \<open>MemlabHeapAnalyzer\<close> builds it, and one as \<open>HeapSnapshotAnalyzer\<close> does.\<close>

definition memlab_result :: analysis where
  "memlab_result = \<lparr>an_suspiciousGrowth = True, an_totalGrowthMB = None\<rparr>"

definition basic_result :: "rat \<Rightarrow> analysis" where
  "basic_result g = \<lparr>an_suspiciousGrowth = True, an_totalGrowthMB = Some g\<rparr>"

section \<open>Properties\<close>

subsection \<open>Basic facts\<close>

lemmas exec_defs = step_def handleAgentMessage_def handleServiceRegistration_def
  handleMetrics_def handleLeakAlert_def handleSnapshot_def handleCaptureAgentRegistration_def
  handleSnapshotMetadata_def handleSnapshotChunk_def handleSnapshotComplete_def
  handleComparisonReady_def handleComparisonReady_resume_def comparison_catch_def
  comparison_completed_def comparison_alert_def handleClose_def handleConnection_def
  cleanup_def broadcastToClients_def trimAlerts_def set_session_def has_data_def
  serviceMetrics_def array_set_def js_join_def snapshotsDir_def new_dashboard_def env0_def
  example_snapshot_def example_metric_def ready_snapshots_def example_comparison_def
  snapshot_notice_def memlab_result_def basic_result_def env_random_at_def
  env_write_throws_def early_completed_after_def announced_with_data_def Let_def

lemma run_Nil [simp]: "run [] st = st"
  by (simp add: run_def)

lemma run_Cons [simp]: "run (i # ins) st = run ins (step i st)"
  by (simp add: run_def)

lemma run_append [simp]: "run (xs @ ys) st = run ys (run xs st)"
  by (simp add: run_def)

lemma map_of_map_set: "map_of (map_set k v kvs) = (map_of kvs)(k \<mapsto> v)"
  by (induction kvs) (auto simp: fun_eq_iff)

subsection \<open>Re-registration of a service\<close>

text \<open>
  C10. A registration message that names an already-registered service replaces the
  stored record wholesale: the new record has \<open>totalAlerts = 0\<close> and
  \<open>registeredAt\<close> equal to the timestamp of the message, while every existing metric
  ring and the global alert ring are left as they were.
\<close>

theorem C10_reregistration_replaces_record:
  assumes "map_of (services st) service = Some old"
  shows "map_of (services (handleServiceRegistration ws service timestamp st)) service =
           Some \<lparr>svc_name = service, svc_status = Connected, svc_connection = ws,
                 svc_registeredAt = timestamp, svc_lastSeen = timestamp,
                 svc_totalAlerts = 0\<rparr>
       \<and> (\<forall>s ring. metrics st s = Some ring \<longrightarrow>
             metrics (handleServiceRegistration ws service timestamp st) s = Some ring)
       \<and> alerts (handleServiceRegistration ws service timestamp st) = alerts st"
  by (simp add: handleServiceRegistration_def broadcastToClients_def Let_def map_of_map_set)

text \<open>
  The service \<open>svc-a\<close> registers, reports a leak (one alert, \<open>totalAlerts = 1\<close>) and
  registers again on another socket.
\<close>

theorem C10_reregistration_witness:
  "map_option svc_totalAlerts (map_of (services (run
       [Message 1 (Registration ''svc-a'' 10) env0,
        Message 1 (Metrics (example_metric 20 True)) env0] new_dashboard)) ''svc-a'') = Some 1
 \<and> map_of (services (handleServiceRegistration 2 ''svc-a'' 30 (run
       [Message 1 (Registration ''svc-a'' 10) env0,
        Message 1 (Metrics (example_metric 20 True)) env0] new_dashboard))) ''svc-a'' =
      Some \<lparr>svc_name = ''svc-a'', svc_status = Connected, svc_connection = 2,
            svc_registeredAt = 30, svc_lastSeen = 30, svc_totalAlerts = 0\<rparr>
 \<and> metrics (handleServiceRegistration 2 ''svc-a'' 30 (run
       [Message 1 (Registration ''svc-a'' 10) env0,
        Message 1 (Metrics (example_metric 20 True)) env0] new_dashboard)) ''svc-a'' =
      Some [example_metric 20 True]
 \<and> length (alerts (handleServiceRegistration 2 ''svc-a'' 30 (run
       [Message 1 (Registration ''svc-a'' 10) env0,
        Message 1 (Metrics (example_metric 20 True)) env0] new_dashboard))) = 1"
proof -
  let ?st = "run [Message 1 (Registration ''svc-a'' 10) env0,
                  Message 1 (Metrics (example_metric 20 True)) env0] new_dashboard"
  have old: "map_of (services ?st) ''svc-a'' =
      Some \<lparr>svc_name = ''svc-a'', svc_status = Connected, svc_connection = 1,
            svc_registeredAt = 10, svc_lastSeen = 20, svc_totalAlerts = 1\<rparr>"
    by (simp add: exec_defs)
  have ring: "metrics ?st ''svc-a'' = Some [example_metric 20 True]"
    by (simp add: exec_defs)
  have al: "length (alerts ?st) = 1"
    by (simp add: exec_defs)
  from C10_reregistration_replaces_record [OF old, of 2 30] old ring al
  show ?thesis by simp
qed

subsection \<open>A comparison with a snapshot missing\<close>

text \<open>
  C5, as the code has it. The code does not ask whether a snapshot is complete; its test
  is \<open>snapshot?.data\<close>. For every comparison-ready message for which at least one of
  the two referenced snapshots is absent or holds no data (none, or the empty string),
  exactly one \<open>comparisonPending\<close> event is published, carrying the flags that say
  which of before and after is missing; the created session is stored with status
  waiting; and no analysis is started.
\<close>

theorem C5_comparison_pending:
  assumes "\<not> (has_data (snapshots st b) \<and> has_data (snapshots st a))"
  shows "published (handleComparisonReady ws name cid b a tf e st) =
           published st @ [comparisonPending (ComparisonId name (env_now e)) name
                             (\<not> has_data (snapshots st b)) (\<not> has_data (snapshots st a))]
       \<and> comparisonSessions (handleComparisonReady ws name cid b a tf e st)
           (ComparisonId name (env_now e)) = Some (length (sessionObjects st))
       \<and> length (sessionObjects (handleComparisonReady ws name cid b a tf e st)) =
           Suc (length (sessionObjects st))
       \<and> sess_status (sessionObjects (handleComparisonReady ws name cid b a tf e st)
           ! length (sessionObjects st)) = Waiting
       \<and> pending (handleComparisonReady ws name cid b a tf e st) = pending st"
  using assms
  by (auto simp add: handleComparisonReady_def broadcastToClients_def Let_def)

text \<open>The before snapshot is complete, the after snapshot has not been announced.\<close>

theorem C5_comparison_pending_witness:
  "published (handleComparisonReady 1 ''svc-a'' ''c1'' ''before_1'' ''after_2'' 60 env0
       (run (take 3 ready_snapshots) new_dashboard)) =
     published (run (take 3 ready_snapshots) new_dashboard) @
       [comparisonPending (ComparisonId ''svc-a'' 1000) ''svc-a'' False True]
 \<and> map sess_status (sessionObjects (handleComparisonReady 1 ''svc-a'' ''c1'' ''before_1''
       ''after_2'' 60 env0 (run (take 3 ready_snapshots) new_dashboard))) = [Waiting]
 \<and> pending (handleComparisonReady 1 ''svc-a'' ''c1'' ''before_1'' ''after_2'' 60 env0
       (run (take 3 ready_snapshots) new_dashboard)) = []"
proof -
  let ?st = "run (take 3 ready_snapshots) new_dashboard"
  have b: "has_data (snapshots ?st ''before_1'')" and a: "\<not> has_data (snapshots ?st ''after_2'')"
    by (simp_all add: exec_defs)
  have objs: "sessionObjects ?st = []" and pend: "pending ?st = []"
    by (simp_all add: exec_defs)
  have hyp: "\<not> (has_data (snapshots ?st ''before_1'') \<and> has_data (snapshots ?st ''after_2''))"
    using a by simp
  let ?st' = "handleComparisonReady 1 ''svc-a'' ''c1'' ''before_1'' ''after_2'' 60 env0 ?st"
  note C5_comparison_pending [OF hyp, of 1 "''svc-a''" "''c1''" 60 env0]
  moreover have "env_now env0 = 1000" by (simp add: env0_def)
  ultimately have 1: "published ?st' = published ?st @
        [comparisonPending (ComparisonId ''svc-a'' 1000) ''svc-a'' False True]"
    and 2: "length (sessionObjects ?st') = 1" and 3: "sess_status (sessionObjects ?st' ! 0) = Waiting"
    and 4: "pending ?st' = []"
    using a b objs pend by simp_all
  from 2 3 have "map sess_status (sessionObjects ?st') = [Waiting]"
    by (cases "sessionObjects ?st'") simp_all
  with 1 4 show ?thesis by simp
qed

text \<open>
  Against C5 as stated: the after snapshot is not complete, and the comparison starts all
  the same. First it has received one chunk of three when an early completion message
  sets its data; then it has been announced with a \<open>data\<close> field and has seen no chunk,
  no completion message and no file. Each time the comparison-ready message publishes
  \<open>comparisonStarted\<close>, not \<open>comparisonPending\<close>, the session is analyzing and an
  analysis is pending.
\<close>

theorem C5_incomplete_snapshot_starts_analysis:
  "map_option (\<lambda>s. (snap_receivedChunks s, snap_totalChunks s))
     (snapshots (run early_completed_after new_dashboard) ''after_2'') = Some (Some 1, Some 3)
 \<and> last (published (run (early_completed_after @ [example_comparison]) new_dashboard)) =
     comparisonStarted (ComparisonId ''svc-a'' 1000) ''svc-a'' ''before_1'' ''after_2''
 \<and> map sess_status (sessionObjects
       (run (early_completed_after @ [example_comparison]) new_dashboard)) = [Analyzing]
 \<and> length (pending (run (early_completed_after @ [example_comparison]) new_dashboard)) = 1
 \<and> map_option (\<lambda>s. (snap_receivedChunks s, snap_totalChunks s))
     (snapshots (run announced_with_data new_dashboard) ''after_2'') = Some (Some 0, Some 3)
 \<and> files (run announced_with_data new_dashboard)
     (PathJoin ''./dashboard-snapshots'' ''a.heapsnapshot'') = None
 \<and> last (published (run (announced_with_data @ [example_comparison]) new_dashboard)) =
     comparisonStarted (ComparisonId ''svc-a'' 1000) ''svc-a'' ''before_1'' ''after_2''
 \<and> map sess_status (sessionObjects
       (run (announced_with_data @ [example_comparison]) new_dashboard)) = [Analyzing]
 \<and> length (pending (run (announced_with_data @ [example_comparison]) new_dashboard)) = 1"
  by (simp add: exec_defs)

subsection \<open>Chunks of a snapshot\<close>

lemma array_set_length: "length (array_set arr i v) = max (length arr) (Suc i)"
  by (auto simp: array_set_def)

lemma array_set_nth:
  "j < max (length arr) (Suc i) \<Longrightarrow>
   array_set arr i v ! j = (if j = i then Some v else if j < length arr then arr ! j else None)"
  by (auto simp: array_set_def nth_append)

text \<open>
  C1, as the code has it. For every snapshot-chunk message for a known snapshot with a
  chunk table, the data of the chunk is stored at \<open>chunkIndex\<close>, replacing what was
  there (the later write wins), and the other indices keep their content; the count of
  received chunks goes up by one on every chunk message, also when the index has been
  received before, and the declared total is not consulted.
\<close>

theorem C1_chunk_overwrites_and_counts:
  assumes "snapshots st sid = Some snap" and "snap_chunks snap = Some cs"
  shows "\<exists>snap'. snapshots (handleSnapshotChunk ws sid i n d st) sid = Some snap'
       \<and> snap_chunks snap' = Some (array_set cs i d)
       \<and> array_set cs i d ! i = Some d
       \<and> (\<forall>j<length cs. j \<noteq> i \<longrightarrow> array_set cs i d ! j = cs ! j)
       \<and> snap_receivedChunks snap' =
           Some ((case snap_receivedChunks snap of None \<Rightarrow> 0 | Some k \<Rightarrow> k) + 1)
       \<and> snap_totalChunks snap' = snap_totalChunks snap"
  using assms
  by (simp add: handleSnapshotChunk_def broadcastToClients_def Let_def array_set_nth)

text \<open>A snapshot of one chunk has received index 0 with \<open>a\<close>; index 0 arrives again with \<open>b\<close>.\<close>

theorem C1_chunk_overwrites_and_counts_witness:
  "map_option (\<lambda>s. (snap_chunks s, snap_receivedChunks s, snap_totalChunks s))
     (snapshots (handleSnapshotChunk 1 ''s1'' 0 1 ''b''
        (run [Message 1 (SnapshotMetadata (example_snapshot ''s1'' Before ''b.heapsnapshot'' 1)) env0,
              Message 1 (SnapshotChunk ''s1'' 0 1 ''a'') env0] new_dashboard)) ''s1'')
   = Some (Some [Some ''b''], Some 2, Some 1)"
proof -
  let ?st = "run [Message 1 (SnapshotMetadata (example_snapshot ''s1'' Before ''b.heapsnapshot'' 1)) env0,
                  Message 1 (SnapshotChunk ''s1'' 0 1 ''a'') env0] new_dashboard"
  let ?snap = "(example_snapshot ''s1'' Before ''b.heapsnapshot'' 1)
                 \<lparr>snap_chunks := Some [Some ''a''], snap_receivedChunks := Some 1\<rparr>"
  have 1: "snapshots ?st ''s1'' = Some ?snap"
    by (simp add: exec_defs)
  have 2: "snap_chunks ?snap = Some [Some ''a'']"
    by simp
  from C1_chunk_overwrites_and_counts [OF 1 2, of 1 0 1 "''b''"]
  show ?thesis by (auto simp add: array_set_def example_snapshot_def)
qed

text \<open>
  Against C1 as stated: a snapshot announced with one chunk receives index 0 twice. The
  later data is in the table, and the count of received chunks is 2, above the total 1.
\<close>

theorem C1_received_exceeds_total:
  "map_option (\<lambda>s. (snap_chunks s, snap_receivedChunks s, snap_totalChunks s))
     (snapshots (run [Message 1 (SnapshotMetadata (example_snapshot ''s1'' Before ''b.heapsnapshot'' 1)) env0,
                      Message 1 (SnapshotChunk ''s1'' 0 1 ''a'') env0,
                      Message 1 (SnapshotChunk ''s1'' 0 1 ''b'') env0] new_dashboard) ''s1'')
   = Some (Some [Some ''b''], Some 2, Some 1)
 \<and> \<not> (2::nat) \<le> 1"
  by (simp add: exec_defs)

subsection \<open>Completion of a snapshot\<close>

lemma files_broadcastToClients [simp]: "files (broadcastToClients ev st) = files st"
  by (simp add: broadcastToClients_def)

lemma files_trimAlerts [simp]: "files (trimAlerts st) = files st"
  by (simp add: trimAlerts_def)

lemma files_set_session [simp]: "files (set_session r f st) = files st"
  by (simp add: set_session_def)

lemma published_trimAlerts [simp]: "published (trimAlerts st) = published st"
  by (simp add: trimAlerts_def)

lemma published_set_session [simp]: "published (set_session r f st) = published st"
  by (simp add: set_session_def)

lemma published_broadcastToClients [simp]:
  "published (broadcastToClients ev st) = published st @ [ev]"
  by (simp add: broadcastToClients_def)






lemma quiet_handleSnapshotChunk:
  "files (handleSnapshotChunk ws sid i n d st) = files st
 \<and> (\<exists>evs. published (handleSnapshotChunk ws sid i n d st) = published st @ evs
        \<and> \<not> list_ex is_snapshotCompleted evs)"
  by (simp add: handleSnapshotChunk_def Let_def split: option.splits)






subsection \<open>Closing a connection\<close>

lemma disconnect_first_none:
  "\<forall>(k, v) \<in> set kvs. svc_connection v \<noteq> ws \<Longrightarrow> disconnect_first ws now kvs = (kvs, None)"
  by (induction kvs) auto

lemma disconnect_first_found:
  "\<forall>(k, v) \<in> set pre. svc_connection v \<noteq> ws \<Longrightarrow> svc_connection s = ws \<Longrightarrow>
   disconnect_first ws now (pre @ (n, s) # post) =
     (pre @ (n, s\<lparr>svc_status := Disconnected, svc_lastSeen := now\<rparr>) # post, Some n)"
  by (induction pre) auto

text \<open>
  C8, as the code has it. When a connection closes, the first service in the order of
  the map whose connection is the closed one turns to disconnected, with its last-seen
  instant set, and one \<open>serviceUpdate\<close> is published for it; every other service, also
  a later one on the same connection, is unchanged. When no service is on the
  connection, the services and the published events are unchanged.
\<close>

theorem C8_close_disconnects_first_match:
  "(services st = pre @ (n, s) # post \<and> (\<forall>(k, v) \<in> set pre. svc_connection v \<noteq> ws)
      \<and> svc_connection s = ws \<longrightarrow>
      services (handleClose ws now st) =
        pre @ (n, s\<lparr>svc_status := Disconnected, svc_lastSeen := now\<rparr>) # post
    \<and> published (handleClose ws now st) = published st @ [serviceUpdate n Disconnected])
 \<and> ((\<forall>(k, v) \<in> set (services st). svc_connection v \<noteq> ws) \<longrightarrow>
      services (handleClose ws now st) = services st
    \<and> published (handleClose ws now st) = published st)"
  by (auto simp add: handleClose_def broadcastToClients_def Let_def disconnect_first_none
      disconnect_first_found)

text \<open>
  Services \<open>svc-a\<close> on socket 1, \<open>svc-b\<close> and \<open>svc-c\<close> on socket 2; socket 2
  closes, and a socket 3 without services closes.
\<close>

theorem C8_close_disconnects_first_match_witness:
  "map (\<lambda>(k, v). (k, svc_status v, svc_connection v, svc_lastSeen v))
     (services (handleClose 2 40 (run [Message 1 (Registration ''svc-a'' 10) env0,
        Message 2 (Registration ''svc-b'' 20) env0,
        Message 2 (Registration ''svc-c'' 30) env0] new_dashboard)))
   = [(''svc-a'', Connected, 1, 10), (''svc-b'', Disconnected, 2, 40), (''svc-c'', Connected, 2, 30)]
 \<and> services (handleClose 3 40 (run [Message 1 (Registration ''svc-a'' 10) env0,
        Message 2 (Registration ''svc-b'' 20) env0,
        Message 2 (Registration ''svc-c'' 30) env0] new_dashboard))
   = services (run [Message 1 (Registration ''svc-a'' 10) env0,
        Message 2 (Registration ''svc-b'' 20) env0,
        Message 2 (Registration ''svc-c'' 30) env0] new_dashboard)"
proof -
  let ?st = "run [Message 1 (Registration ''svc-a'' 10) env0,
        Message 2 (Registration ''svc-b'' 20) env0,
        Message 2 (Registration ''svc-c'' 30) env0] new_dashboard"
  let ?a = "\<lparr>svc_name = ''svc-a'', svc_status = Connected, svc_connection = 1,
            svc_registeredAt = 10, svc_lastSeen = 10, svc_totalAlerts = 0\<rparr>"
  let ?b = "\<lparr>svc_name = ''svc-b'', svc_status = Connected, svc_connection = 2,
            svc_registeredAt = 20, svc_lastSeen = 20, svc_totalAlerts = 0\<rparr>"
  let ?c = "\<lparr>svc_name = ''svc-c'', svc_status = Connected, svc_connection = 2,
            svc_registeredAt = 30, svc_lastSeen = 30, svc_totalAlerts = 0\<rparr>"
  have sv: "services ?st = [(''svc-a'', ?a)] @ (''svc-b'', ?b) # [(''svc-c'', ?c)]"
    by (simp add: exec_defs)
  from C8_close_disconnects_first_match [of ?st "[(''svc-a'', ?a)]" "''svc-b''" ?b
      "[(''svc-c'', ?c)]" 2 40] sv
  have 1: "services (handleClose 2 40 ?st) =
      [(''svc-a'', ?a), (''svc-b'', ?b\<lparr>svc_status := Disconnected, svc_lastSeen := 40\<rparr>),
       (''svc-c'', ?c)]"
    by simp
  from C8_close_disconnects_first_match [of ?st "[(''svc-a'', ?a)]" "''svc-b''" ?b
      "[(''svc-c'', ?c)]" 3 40] sv
  have 2: "services (handleClose 3 40 ?st) = services ?st"
    by simp
  from 1 2 show ?thesis by simp
qed

text \<open>
  Against C8 as stated: socket 1 has registered \<open>svc-a\<close> and \<open>svc-b\<close> and closes; the
  second service stays connected on the closed socket.
\<close>

theorem C8_second_service_stays_connected:
  "map (\<lambda>(k, v). (k, svc_status v, svc_connection v))
     (services (run [Message 1 (Registration ''svc-a'' 10) env0,
                     Message 1 (Registration ''svc-b'' 20) env0,
                     Close 1 30] new_dashboard))
   = [(''svc-a'', Disconnected, 1), (''svc-b'', Connected, 1)]"
  by (simp add: exec_defs)

subsection \<open>Reassembly in any order of arrival\<close>

lemma table_ok_array_set:
  assumes "table_ok payloads arr S"
  shows "table_ok payloads (array_set arr i (payloads ! i)) (insert i S)"
  unfolding table_ok_def
proof (intro conjI allI impI ballI)
  fix j assume j: "j < length (array_set arr i (payloads ! i))"
  then have "j < max (length arr) (Suc i)" by (simp add: array_set_length)
  then show "array_set arr i (payloads ! i) ! j =
      (if j \<in> insert i S then Some (payloads ! j) else None)"
    using assms by (auto simp add: array_set_nth table_ok_def)
  show "\<exists>k\<in>insert i S. j \<le> k"
  proof (cases "j < length arr")
    case True
    with assms show ?thesis by (auto simp: table_ok_def)
  next
    case False
    with j have "j \<le> i" by (simp add: array_set_length)
    then show ?thesis by blast
  qed
next
  fix k assume "k \<in> insert i S"
  with assms show "k < length (array_set arr i (payloads ! i))"
    by (auto simp add: array_set_length table_ok_def)
qed

lemma table_ok_full:
  assumes "table_ok payloads arr {..<length payloads}"
  shows "arr = map Some payloads"
proof (rule nth_equalityI)
  have "length payloads \<le> length arr"
  proof (cases "length payloads")
    case (Suc n)
    with assms have "n < length arr" by (simp add: table_ok_def)
    with Suc show ?thesis by simp
  qed simp
  moreover have "length arr \<le> length payloads"
  proof (rule ccontr)
    assume "\<not> length arr \<le> length payloads"
    then have "length payloads < length arr" by simp
    with assms obtain i where "i < length payloads" "length payloads \<le> i"
      by (auto simp: table_ok_def)
    then show False by simp
  qed
  ultimately show len: "length arr = length (map Some payloads)" by simp
  fix i assume "i < length arr"
  with assms len show "arr ! i = map Some payloads ! i" by (simp add: table_ok_def)
qed

lemma js_join_map_Some: "js_join (map Some payloads) = concat payloads"
  by (simp add: js_join_def comp_def)

lemma run_chunk_inputs:
  assumes "snapshots st sid = Some snap" and "snap_chunks snap = Some arr"
    and "table_ok payloads arr S"
  shows "\<exists>snap' arr'. snapshots (run (chunk_inputs ws sid n payloads e idxs) st) sid = Some snap'
      \<and> snap_chunks snap' = Some arr' \<and> table_ok payloads arr' (S \<union> set idxs)
      \<and> snap_filename snap' = snap_filename snap
      \<and> files (run (chunk_inputs ws sid n payloads e idxs) st) = files st"
  using assms
proof (induction idxs arbitrary: st snap arr S)
  case Nil
  then show ?case by (simp add: chunk_inputs_def)
next
  case (Cons i idxs)
  let ?st = "handleSnapshotChunk ws sid i n (payloads ! i) st"
  obtain snap1 where 1: "snapshots ?st sid = Some snap1"
    "snap_chunks snap1 = Some (array_set arr i (payloads ! i))"
    "snap_filename snap1 = snap_filename snap"
    using Cons.prems(1,2)
    by (simp add: handleSnapshotChunk_def broadcastToClients_def Let_def)
  have 2: "files ?st = files st"
    by (simp add: quiet_handleSnapshotChunk)
  have "table_ok payloads (array_set arr i (payloads ! i)) (insert i S)"
    using Cons.prems(3) by (rule table_ok_array_set)
  from Cons.IH [OF 1(1) 1(2) this] 1(3) 2 show ?case
    by (simp add: chunk_inputs_def step_def handleAgentMessage_def)
qed

text \<open>
  C3. For every snapshot announced with total-chunks \<open>N\<close> and every permutation
  \<open>idxs\<close> of the \<open>N\<close> indices, the announcement, the chunk messages in the order
  \<open>idxs\<close> and a snapshot-complete message whose write succeeds leave, from any state
  of the server, the file \<open>./dashboard-snapshots/<filename>\<close> persisted with the
  concatenation of the payloads in index order, and every other file as it was; the
  order of arrival does not show in the result.
\<close>

theorem C3_file_independent_of_arrival_order:
  assumes "snap_id snapshot = sid" and "snap_totalChunks snapshot = Some N"
    and "length payloads = N" and "distinct idxs" and "set idxs = {..<N}"
    and "env_write_ok ec"
  shows "files (run ([Message ws (SnapshotMetadata snapshot) e]
                     @ chunk_inputs ws sid N payloads e idxs
                     @ [Message ws (SnapshotComplete sid) ec]) st) =
           (files st)(PathJoin ''./dashboard-snapshots'' (snap_filename snapshot) \<mapsto>
              concat payloads)"
proof -
  let ?st0 = "handleSnapshotMetadata ws snapshot st"
  let ?snap0 = "snapshot\<lparr>snap_chunks := Some [], snap_receivedChunks := Some 0\<rparr>"
  have 0: "snapshots ?st0 sid = Some ?snap0" "snap_chunks ?snap0 = Some []"
    using assms(1) by (simp_all add: handleSnapshotMetadata_def broadcastToClients_def)
  have f0: "files ?st0 = files st"
    by (simp add: handleSnapshotMetadata_def)
  have "table_ok payloads [] {}" by (simp add: table_ok_def)
  from run_chunk_inputs [OF 0 this, of ws N e idxs]
  obtain snap' arr' where 1:
    "snapshots (run (chunk_inputs ws sid N payloads e idxs) ?st0) sid = Some snap'"
    "snap_chunks snap' = Some arr'" "table_ok payloads arr' (set idxs)"
    "snap_filename snap' = snap_filename snapshot"
    "files (run (chunk_inputs ws sid N payloads e idxs) ?st0) = files ?st0"
    by auto
  from 1(3) assms(3,5) have "arr' = map Some payloads"
    by (simp add: table_ok_full)
  with 1 f0 assms(6) show ?thesis
    by (simp add: step_def handleAgentMessage_def handleSnapshotComplete_def
        broadcastToClients_def Let_def js_join_map_Some snapshotsDir_def)
qed

text \<open>Three chunks \<open>abc\<close>, \<open>def\<close>, \<open>ghi\<close> arrive in the order 0, 2, 1.\<close>

theorem C3_file_independent_of_arrival_order_witness:
  "files (run ([Message 1 (SnapshotMetadata
                   (example_snapshot ''before_svc-a_1'' Before ''b.heapsnapshot'' 3)) env0]
               @ chunk_inputs 1 ''before_svc-a_1'' 3 [''abc'', ''def'', ''ghi''] env0 [0, 2, 1]
               @ [Message 1 (SnapshotComplete ''before_svc-a_1'') env0]) new_dashboard)
     (PathJoin ''./dashboard-snapshots'' ''b.heapsnapshot'') = Some ''abcdefghi''"
proof -
  let ?snapshot = "example_snapshot ''before_svc-a_1'' Before ''b.heapsnapshot'' 3"
  have 1: "snap_id ?snapshot = ''before_svc-a_1''" and 2: "snap_totalChunks ?snapshot = Some 3"
    by (simp_all add: example_snapshot_def)
  have 3: "length [''abc'', ''def'', ''ghi''] = 3" by simp
  have 4: "distinct [0::nat, 2, 1]" by simp
  have 5: "set [0::nat, 2, 1] = {..<3}" by auto
  have 6: "env_write_ok env0" by (simp add: env0_def)
  from C3_file_independent_of_arrival_order [OF 1 2 3 4 5 6, of 1 env0 new_dashboard]
  show ?thesis by (simp add: example_snapshot_def)
qed

subsection \<open>The metric ring of a service\<close>

lemma metrics_broadcastToClients [simp]: "metrics (broadcastToClients ev st) = metrics st"
  by (simp add: broadcastToClients_def)

lemma metrics_trimAlerts [simp]: "metrics (trimAlerts st) = metrics st"
  by (simp add: trimAlerts_def)

lemma metrics_set_session [simp]: "metrics (set_session r f st) = metrics st"
  by (simp add: set_session_def)

lemma metrics_handleLeakAlert [simp]: "metrics (handleLeakAlert m e st) = metrics st"
  by (simp add: handleLeakAlert_def Let_def split: option.splits)

lemma metrics_handleMetrics:
  "metrics (handleMetrics ws m e st) =
     (metrics st)(m_service m \<mapsto>
        (if length (serviceMetrics st (m_service m)) \<ge> 1000
         then tl (serviceMetrics st (m_service m) @ [m])
         else serviceMetrics st (m_service m) @ [m]))"
  by (auto simp add: handleMetrics_def Let_def serviceMetrics_def split: option.splits)

lemma metrics_handleServiceRegistration:
  "metrics (handleServiceRegistration ws s t st) =
     (if metrics st s = None then (metrics st)(s \<mapsto> []) else metrics st)"
  by (simp add: handleServiceRegistration_def Let_def)

lemma metrics_handleSnapshot [simp]: "metrics (handleSnapshot ws s f p t e st) = metrics st"
  by (simp add: handleSnapshot_def Let_def)

lemma metrics_handleCaptureAgentRegistration [simp]:
  "metrics (handleCaptureAgentRegistration ws s c t st) = metrics st"
  by (simp add: handleCaptureAgentRegistration_def)

lemma metrics_handleSnapshotMetadata [simp]: "metrics (handleSnapshotMetadata ws snapshot st) = metrics st"
  by (simp add: handleSnapshotMetadata_def)

lemma metrics_handleSnapshotChunk [simp]: "metrics (handleSnapshotChunk ws sid i n d st) = metrics st"
  by (simp add: handleSnapshotChunk_def Let_def split: option.splits)

lemma metrics_handleSnapshotComplete [simp]: "metrics (handleSnapshotComplete ws sid e st) = metrics st"
  by (simp add: handleSnapshotComplete_def Let_def split: option.splits)

lemma metrics_handleComparisonReady [simp]:
  "metrics (handleComparisonReady ws s c b a tf e st) = metrics st"
  by (simp add: handleComparisonReady_def Let_def)

lemma metrics_handleComparisonReady_resume [simp]:
  "metrics (handleComparisonReady_resume p out now st) = metrics st"
  by (simp add: handleComparisonReady_resume_def comparison_catch_def comparison_alert_def
      comparison_completed_def Let_def split: outcome.splits option.splits)

lemma metrics_handleConnection [simp]: "metrics (handleConnection ws d st) = metrics st"
  by (simp add: handleConnection_def)

lemma metrics_handleClose [simp]: "metrics (handleClose ws now st) = metrics st"
  by (simp add: handleClose_def Let_def split: prod.splits option.splits)

lemma metrics_cleanup [simp]: "metrics (cleanup now st) = metrics st"
  by (simp add: cleanup_def)

lemma serviceMetrics_step:
  assumes "length (serviceMetrics st s) \<le> 1000"
  shows "serviceMetrics (step i st) s =
     (if length (serviceMetrics st s @ arrival s i) > 1000
      then tl (serviceMetrics st s @ arrival s i)
      else serviceMetrics st s @ arrival s i)"
proof (cases i)
  case (Message ws message e)
  show ?thesis
  proof (cases message)
    case (Metrics m)
    with Message assms show ?thesis
      by (auto simp add: step_def handleAgentMessage_def metrics_handleMetrics serviceMetrics_def)
  next
    case (Registration service timestamp)
    with Message assms show ?thesis
      by (auto simp add: step_def handleAgentMessage_def metrics_handleServiceRegistration
          serviceMetrics_def)
  next
    case (Snapshot service filename filepath timestamp)
    with Message assms show ?thesis
      by (simp add: step_def handleAgentMessage_def serviceMetrics_def)
  next
    case (CaptureAgentRegistration serviceName containerId timestamp)
    with Message assms show ?thesis
      by (simp add: step_def handleAgentMessage_def serviceMetrics_def)
  next
    case (SnapshotMetadata snapshot)
    with Message assms show ?thesis
      by (simp add: step_def handleAgentMessage_def serviceMetrics_def)
  next
    case (SnapshotChunk snapshotId chunkIndex totalChunks d)
    with Message assms show ?thesis
      by (simp add: step_def handleAgentMessage_def serviceMetrics_def)
  next
    case (SnapshotComplete snapshotId)
    with Message assms show ?thesis
      by (simp add: step_def handleAgentMessage_def serviceMetrics_def)
  next
    case (ComparisonReady serviceName containerId b a tf ts)
    with Message assms show ?thesis
      by (simp add: step_def handleAgentMessage_def serviceMetrics_def)
  next
    case UnknownType
    with Message assms show ?thesis
      by (simp add: step_def handleAgentMessage_def serviceMetrics_def)
  qed
next
  case (Connect ws d)
  with assms show ?thesis by (simp add: step_def serviceMetrics_def)
next
  case (Close ws now)
  with assms show ?thesis by (simp add: step_def serviceMetrics_def)
next
  case (Sweep now)
  with assms show ?thesis by (simp add: step_def serviceMetrics_def)
next
  case (AnalysisDone k out now)
  with assms show ?thesis by (simp add: step_def serviceMetrics_def)
qed

lemma length_last_n: "length (last_n n xs) \<le> n"
  by (simp add: last_n_def)

lemma last_n_snoc:
  assumes "length ys \<le> 1"
  shows "(if length (last_n 1000 xs @ ys) > 1000 then tl (last_n 1000 xs @ ys)
          else last_n 1000 xs @ ys) = last_n 1000 (xs @ ys)"
proof (cases ys)
  case Nil
  have "length (last_n 1000 xs) \<le> 1000" by (rule length_last_n)
  with Nil show ?thesis by simp
next
  case (Cons y zs)
  with assms have ys: "ys = [y]" by simp
  show ?thesis
  proof (cases "length xs < 1000")
    case True
    then show ?thesis by (simp add: last_n_def ys)
  next
    case False
    then have "length xs - 1000 < length xs" by simp
    then have "drop (length xs - 1000) xs =
        xs ! (length xs - 1000) # drop (Suc (length xs - 1000)) xs"
      by (simp add: Cons_nth_drop_Suc)
    then have "tl (drop (length xs - 1000) xs @ [y]) = drop (Suc (length xs - 1000)) xs @ [y]"
      by simp
    moreover from False have "Suc (length xs - 1000) = length xs - 999" by arith
    ultimately show ?thesis using False by (simp add: last_n_def ys)
  qed
qed

lemma length_arrival: "length (arrival s i) \<le> 1"
  by (cases "(s, i)" rule: arrival.cases) auto

lemma ring_is_last_arrivals:
  "serviceMetrics (run ins new_dashboard) s = last_n 1000 (arrivals s ins)"
proof (induction ins rule: rev_induct)
  case Nil
  show ?case by (simp add: serviceMetrics_def new_dashboard_def arrivals_def last_n_def)
next
  case (snoc i ins)
  have "length (serviceMetrics (run ins new_dashboard) s) \<le> 1000"
    by (simp add: snoc length_last_n)
  then have "serviceMetrics (run (ins @ [i]) new_dashboard) s =
      (if length (last_n 1000 (arrivals s ins) @ arrival s i) > 1000
       then tl (last_n 1000 (arrivals s ins) @ arrival s i)
       else last_n 1000 (arrivals s ins) @ arrival s i)"
    by (simp add: serviceMetrics_step snoc)
  also have "\<dots> = last_n 1000 (arrivals s ins @ arrival s i)"
    by (rule last_n_snoc [OF length_arrival])
  finally show ?case by (simp add: arrivals_def)
qed

text \<open>
  C7. In every execution and for every service, the metric ring holds at most 1000
  samples and is the last 1000 of the samples that arrived for the service, in the order
  of arrival; and ingesting a sample into a ring of 1000 drops exactly the oldest one
  and appends the new one.
\<close>

theorem C7_metric_ring_bounded_in_arrival_order:
  "length (serviceMetrics (run ins new_dashboard) s) \<le> 1000
 \<and> serviceMetrics (run ins new_dashboard) s = last_n 1000 (arrivals s ins)
 \<and> (length (serviceMetrics st (m_service m)) = 1000 \<longrightarrow>
      serviceMetrics (handleMetrics ws m e st) (m_service m) =
        tl (serviceMetrics st (m_service m)) @ [m])"
proof (intro conjI impI)
  show "length (serviceMetrics (run ins new_dashboard) s) \<le> 1000"
    by (simp add: ring_is_last_arrivals length_last_n)
  show "serviceMetrics (run ins new_dashboard) s = last_n 1000 (arrivals s ins)"
    by (rule ring_is_last_arrivals)
next
  assume full: "length (serviceMetrics st (m_service m)) = 1000"
  then have "serviceMetrics st (m_service m) \<noteq> []" by auto
  with full show "serviceMetrics (handleMetrics ws m e st) (m_service m) =
      tl (serviceMetrics st (m_service m)) @ [m]"
    by (simp add: serviceMetrics_def [of "handleMetrics ws m e st"] metrics_handleMetrics)
qed

text \<open>
  Two samples after a registration; and a ring of 1000 samples with timestamp 0 that
  takes a sample with timestamp 7.
\<close>

theorem C7_metric_ring_witness:
  "serviceMetrics (run [Message 1 (Registration ''svc-a'' 10) env0,
                        Message 1 (Metrics (example_metric 20 False)) env0,
                        Message 1 (Metrics (example_metric 30 False)) env0] new_dashboard) ''svc-a''
     = [example_metric 20 False, example_metric 30 False]
 \<and> serviceMetrics (handleMetrics 1 (example_metric 7 False) env0
       (new_dashboard\<lparr>metrics := [''svc-a'' \<mapsto> replicate 1000 (example_metric 0 False)]\<rparr>)) ''svc-a''
     = replicate 999 (example_metric 0 False) @ [example_metric 7 False]"
proof -
  let ?ins = "[Message 1 (Registration ''svc-a'' 10) env0,
               Message 1 (Metrics (example_metric 20 False)) env0,
               Message 1 (Metrics (example_metric 30 False)) env0]"
  let ?st = "new_dashboard\<lparr>metrics := [''svc-a'' \<mapsto> replicate 1000 (example_metric 0 False)]\<rparr>"
  have svc: "m_service (example_metric t l) = ''svc-a''" for t l
    by (simp add: example_metric_def)
  have arr: "last_n 1000 (arrivals ''svc-a'' ?ins) = [example_metric 20 False, example_metric 30 False]"
    by (simp add: arrivals_def last_n_def svc)
  have ring: "serviceMetrics ?st ''svc-a'' = replicate 1000 (example_metric 0 False)"
    by (simp add: serviceMetrics_def)
  from C7_metric_ring_bounded_in_arrival_order
    [of ?ins "''svc-a''" ?st "example_metric 7 False" 1 env0] arr ring
  show ?thesis by (simp add: svc)
qed

subsection \<open>Identifiers of alerts\<close>

lemma alerts_trimAlerts: "alerts (trimAlerts st) = drop (length (alerts st) - 100) (alerts st)"
  by (simp add: trimAlerts_def)

lemma alertCounter_trimAlerts [simp]: "alertCounter (trimAlerts st) = alertCounter st"
  by (simp add: trimAlerts_def)

lemma alerts_set_session [simp]: "alerts (set_session r f st) = alerts st"
  by (simp add: set_session_def)

lemma alertCounter_set_session [simp]: "alertCounter (set_session r f st) = alertCounter st"
  by (simp add: set_session_def)

text \<open>
  The invariant survives a step that drops alerts from the front after appending alerts
  that are not from a comparison, and a step that appends an alert numbered by the
  counter.
\<close>

lemma ids_inv_other:
  assumes "ids_inv st" and "alerts st' = drop k (alerts st @ extra)"
    and "list_all (\<lambda>a. \<not> from_comparison a) extra" and "alertCounter st \<le> alertCounter st'"
  shows "ids_inv st'"
proof -
  have none: "filter from_comparison extra = []"
    using assms(3) by (induction extra) auto
  let ?xs = "alerts st @ extra"
  have "comparison_ids st = map alert_id (filter from_comparison ?xs)"
    by (simp add: comparison_ids_def none)
  also have "\<dots> = map alert_id (filter from_comparison (take k ?xs)) @
      map alert_id (filter from_comparison (drop k ?xs))"
    by (simp only: filter_append [symmetric] map_append [symmetric] append_take_drop_id)
  finally have split: "comparison_ids st =
      map alert_id (filter from_comparison (take k ?xs)) @ comparison_ids st'"
    by (simp add: comparison_ids_def assms(2))
  have "sorted_wrt (<) (comparison_ids st')"
    using assms(1) unfolding ids_inv_def split by (simp add: sorted_wrt_append)
  moreover have "list_all (\<lambda>x. x < of_nat (alertCounter st)) (comparison_ids st')"
    using assms(1) unfolding ids_inv_def split by simp
  then have "list_all (\<lambda>x. x < of_nat (alertCounter st')) (comparison_ids st')"
    using assms(4) by (auto simp: list_all_iff intro: less_le_trans)
  ultimately show ?thesis by (simp add: ids_inv_def)
qed

lemma ids_inv_same:
  "ids_inv st \<Longrightarrow> alerts st' = alerts st \<Longrightarrow> alertCounter st \<le> alertCounter st' \<Longrightarrow> ids_inv st'"
  using ids_inv_other [of st st' 0 "[]"] by simp

lemma ids_inv_comparison:
  assumes "ids_inv st" and "alerts st' = alerts st @ [a]"
    and "alert_id a = of_nat (alertCounter st)" and "alertCounter st' = Suc (alertCounter st)"
  shows "ids_inv st'"
proof (cases "from_comparison a")
  case False
  with assms show ?thesis using ids_inv_other [of st st' 0 "[a]"] by simp
next
  case True
  then have ids: "comparison_ids st' = comparison_ids st @ [of_nat (alertCounter st)]"
    by (simp add: comparison_ids_def assms)
  have "list_all (\<lambda>x. x < of_nat (alertCounter st)) (comparison_ids st)"
    using assms(1) by (simp add: ids_inv_def)
  moreover from this have "list_all (\<lambda>x. x < of_nat (alertCounter st')) (comparison_ids st)"
    by (auto simp: list_all_iff assms(4) intro: less_trans)
  ultimately show ?thesis
    using assms(1) by (auto simp add: ids_inv_def ids sorted_wrt_append list_all_iff assms(4))
qed

lemma ids_inv_cong:
  "alerts st' = alerts st \<Longrightarrow> alertCounter st' = alertCounter st \<Longrightarrow> ids_inv st' = ids_inv st"
  by (simp add: ids_inv_def comparison_ids_def)

lemma ids_inv_broadcastToClients [simp]: "ids_inv (broadcastToClients ev st) = ids_inv st"
  by (rule ids_inv_cong) (simp_all add: broadcastToClients_def)

lemma ids_inv_set_session [simp]: "ids_inv (set_session r f st) = ids_inv st"
  by (rule ids_inv_cong) simp_all

lemma ids_inv_pending_update [simp]: "ids_inv (st\<lparr>pending := ps\<rparr>) = ids_inv st"
  by (rule ids_inv_cong) simp_all

lemma ids_inv_handleLeakAlert: "ids_inv st \<Longrightarrow> ids_inv (handleLeakAlert m e st)"
  by (rule ids_inv_other [where k = "length (alerts st @ [x]) - 100" for x])
     (auto simp add: handleLeakAlert_def Let_def broadcastToClients_def alerts_trimAlerts
        from_comparison_def split: option.splits)

lemma ids_inv_handleSnapshot: "ids_inv st \<Longrightarrow> ids_inv (handleSnapshot ws s f p t e st)"
  by (rule ids_inv_other [where k = "length (alerts st @ [x]) - 100" for x])
     (auto simp add: handleSnapshot_def Let_def broadcastToClients_def alerts_trimAlerts
        from_comparison_def)

lemma ids_inv_handleMetrics:
  assumes inv: "ids_inv st"
  shows "ids_inv (handleMetrics ws m e st)"
proof -
  define st1 where "st1 = (case map_of (services st) (m_service m) of
       None \<Rightarrow> st
     | Some serviceInfo \<Rightarrow>
         st\<lparr>services := map_set (m_service m)
              (serviceInfo\<lparr>svc_lastSeen := m_timestamp m, svc_status := Connected\<rparr>)
              (services st)\<rparr>)"
  define shifted where "shifted =
      (if length (serviceMetrics st1 (m_service m) @ [m]) > 1000
       then tl (serviceMetrics st1 (m_service m) @ [m])
       else serviceMetrics st1 (m_service m) @ [m])"
  define st2 where "st2 = st1\<lparr>metrics := (metrics st1)(m_service m \<mapsto> shifted)\<rparr>"
  have "ids_inv st2"
    by (rule ids_inv_same [OF inv]) (auto simp: st2_def st1_def split: option.splits)
  then have "ids_inv (if m_leakDetected m then handleLeakAlert m e st2 else st2)"
    by (simp add: ids_inv_handleLeakAlert)
  moreover have "handleMetrics ws m e st = broadcastToClients (metricsUpdate m)
      (if m_leakDetected m then handleLeakAlert m e st2 else st2)"
    by (simp add: handleMetrics_def Let_def st2_def st1_def shifted_def)
  ultimately show ?thesis by simp
qed

lemma ids_inv_handleComparisonReady_resume:
  assumes inv: "ids_inv st"
  shows "ids_inv (handleComparisonReady_resume p out now st)"
proof (cases out)
  case (Threw err)
  with inv show ?thesis
    by (simp add: handleComparisonReady_resume_def comparison_catch_def)
next
  case (Returned a)
  let ?st1 = "comparison_completed p a st"
  have inv1: "ids_inv ?st1"
    using inv by (simp add: comparison_completed_def)
  show ?thesis
  proof (cases "an_suspiciousGrowth a")
    case False
    with inv1 show ?thesis
      by (simp add: Returned handleComparisonReady_resume_def comparison_alert_def)
  next
    case True
    show ?thesis
    proof (cases "an_totalGrowthMB a")
      case None
      have "ids_inv (?st1\<lparr>alertCounter := alertCounter ?st1 + 1\<rparr>)"
        by (rule ids_inv_same [OF inv1]) simp_all
      then show ?thesis
        by (simp add: Returned handleComparisonReady_resume_def comparison_alert_def True None
            comparison_catch_def Let_def)
    next
      case (Some g)
      define al where "al = \<lparr>alert_id = of_nat (alertCounter ?st1),
          alert_service = pa_serviceName p, alert_type = Leak,
          alert_message = LeakDetectedGrowth g, alert_timestamp = now,
          alert_severity = (if g > 50 then Critical else Warning),
          alert_heapUsedMB = None, alert_memoryGrowthMB = None,
          alert_filename = None, alert_filepath = None\<rparr>"
      have eq: "handleComparisonReady_resume p out now st =
          ?st1\<lparr>alertCounter := alertCounter ?st1 + 1, alerts := alerts ?st1 @ [al]\<rparr>"
        by (simp add: Returned handleComparisonReady_resume_def comparison_alert_def True Some
            Let_def al_def)
      show ?thesis
        unfolding eq
        by (rule ids_inv_comparison [OF inv1, where a = al]) (simp_all add: al_def)
    qed
  qed
qed

lemma ids_inv_handleServiceRegistration [simp]:
  "ids_inv (handleServiceRegistration ws s t st) = ids_inv st"
  by (rule ids_inv_cong) (simp_all add: handleServiceRegistration_def broadcastToClients_def Let_def)

lemma ids_inv_handleCaptureAgentRegistration [simp]:
  "ids_inv (handleCaptureAgentRegistration ws s c t st) = ids_inv st"
  by (rule ids_inv_cong) (simp_all add: handleCaptureAgentRegistration_def broadcastToClients_def)

lemma ids_inv_handleSnapshotMetadata [simp]:
  "ids_inv (handleSnapshotMetadata ws snapshot st) = ids_inv st"
  by (rule ids_inv_cong) (simp_all add: handleSnapshotMetadata_def broadcastToClients_def)

lemma ids_inv_handleSnapshotChunk [simp]:
  "ids_inv (handleSnapshotChunk ws sid i n d st) = ids_inv st"
  by (rule ids_inv_cong)
     (simp_all add: handleSnapshotChunk_def broadcastToClients_def Let_def split: option.splits)

lemma ids_inv_handleSnapshotComplete [simp]:
  "ids_inv (handleSnapshotComplete ws sid e st) = ids_inv st"
  by (rule ids_inv_cong)
     (simp_all add: handleSnapshotComplete_def broadcastToClients_def Let_def split: option.splits)

lemma ids_inv_handleComparisonReady [simp]:
  "ids_inv (handleComparisonReady ws s c b a tf e st) = ids_inv st"
  by (rule ids_inv_cong) (simp_all add: handleComparisonReady_def broadcastToClients_def Let_def)

lemma ids_inv_handleConnection [simp]: "ids_inv (handleConnection ws d st) = ids_inv st"
  by (rule ids_inv_cong) (simp_all add: handleConnection_def)

lemma ids_inv_handleClose [simp]: "ids_inv (handleClose ws now st) = ids_inv st"
  by (rule ids_inv_cong)
     (simp_all add: handleClose_def broadcastToClients_def Let_def split: prod.splits option.splits)

lemma ids_inv_cleanup [simp]: "ids_inv (cleanup now st) = ids_inv st"
  by (rule ids_inv_cong) (simp_all add: cleanup_def)

lemma ids_inv_step: "ids_inv st \<Longrightarrow> ids_inv (step i st)"
  by (cases i)
     (auto simp add: step_def handleAgentMessage_def ids_inv_handleMetrics ids_inv_handleSnapshot
        ids_inv_handleComparisonReady_resume split: IncomingMessage.splits)

lemma ids_inv_run: "ids_inv st \<Longrightarrow> ids_inv (run ins st)"
  by (induction ins arbitrary: st) (simp_all add: ids_inv_step)

text \<open>
  C9, as the code has it. The alerts synthesized from a completed comparison take their
  identifiers from the alert counter, so in every execution the identifiers of these
  alerts in the ring are strictly increasing in the order of recording. The snapshot
  notification and the leak alert of a metrics message take
  \<open>Date.now() + Math.random()\<close> instead, and nothing orders those identifiers among
  themselves or against the counter.
\<close>

theorem C9_comparison_alert_ids_increase:
  "sorted_wrt (<) (comparison_ids (run ins new_dashboard))"
proof -
  have "ids_inv new_dashboard"
    by (simp add: ids_inv_def comparison_ids_def new_dashboard_def)
  then have "ids_inv (run ins new_dashboard)" by (rule ids_inv_run)
  then show ?thesis by (simp add: ids_inv_def)
qed

text \<open>
  Against C9 as stated: a snapshot notification recorded at instant 1000 has the
  identifier 1000, and the alert of a comparison completed afterwards has the identifier
  1, the first value of the counter. And two snapshot notifications recorded in the same
  millisecond, with the random parts 1/2 and then 1/4, have decreasing identifiers.
\<close>

theorem C9_ids_not_increasing:
  "map alert_id (alerts (run (snapshot_notice # ready_snapshots @
      [example_comparison, AnalysisDone 0 (Returned (basic_result 10)) 2000])
      new_dashboard)) = [1000, 1]
 \<and> \<not> sorted_wrt (<) [1000, 1 :: rat]
 \<and> map alert_id (alerts (run
      [Message 2 (Snapshot ''svc-a'' ''h.heapsnapshot'' ''/tmp/h.heapsnapshot'' 5)
         (env_random_at (1 / 2)),
       Message 2 (Snapshot ''svc-a'' ''i.heapsnapshot'' ''/tmp/i.heapsnapshot'' 6)
         (env_random_at (1 / 4))] new_dashboard)) = [1000 + 1 / 2, 1000 + 1 / 4]
 \<and> \<not> sorted_wrt (<) [1000 + 1 / 2, 1000 + 1 / 4 :: rat]"
proof (intro conjI)
  show "\<not> sorted_wrt (<) [1000 + 1 / 2, 1000 + 1 / 4 :: rat]"
    by (simp del: sorted_wrt.simps add: sorted_wrt2_simps)
qed (simp_all add: exec_defs)

subsection \<open>A completed session that fails afterwards\<close>

text \<open>
  C4, on an input where the code leaves the path. Both snapshots are complete, the
  comparison starts (analyzing) and the analysis returns a summary as
  \<open>MemlabHeapAnalyzer\<close> builds it, with suspicious growth and no \<open>totalGrowthMB\<close>.
  The session is completed and \<open>comparisonCompleted\<close> is published; building the
  alert throws, and the handler of the exception turns the completed session to failed
  and publishes \<open>comparisonFailed\<close>.
\<close>

theorem C4_completed_session_turns_failed:
  "map sess_status (sessionObjects (run (ready_snapshots @ [example_comparison]) new_dashboard))
     = [Analyzing]
 \<and> map sess_status (sessionObjects (comparison_completed
       \<lparr>pa_session = 0, pa_sessionId = ComparisonId ''svc-a'' 1000, pa_serviceName = ''svc-a''\<rparr>
       memlab_result (run (ready_snapshots @ [example_comparison]) new_dashboard)))
     = [Completed]
 \<and> pending (run (ready_snapshots @ [example_comparison]) new_dashboard)
     = [\<lparr>pa_session = 0, pa_sessionId = ComparisonId ''svc-a'' 1000, pa_serviceName = ''svc-a''\<rparr>]
 \<and> map sess_status (sessionObjects (run (ready_snapshots @ [example_comparison,
       AnalysisDone 0 (Returned memlab_result) 2000]) new_dashboard))
     = [Failed]
 \<and> drop 6 (published (run (ready_snapshots @ [example_comparison,
       AnalysisDone 0 (Returned memlab_result) 2000]) new_dashboard))
     = [comparisonStarted (ComparisonId ''svc-a'' 1000) ''svc-a'' ''before_1'' ''after_2'',
        comparisonCompleted (ComparisonId ''svc-a'' 1000) ''svc-a'' memlab_result,
        comparisonFailed (ComparisonId ''svc-a'' 1000) ''svc-a'' toFixed_TypeError]"
  by (simp add: exec_defs)

subsection \<open>The alert ring after a comparison\<close>

lemma step_snapshot_notice:
  "\<exists>A P. step snapshot_notice st = st\<lparr>alerts := A, published := P\<rparr>
     \<and> length A = min 100 (Suc (length (alerts st)))"
  by (auto simp add: snapshot_notice_def step_def handleAgentMessage_def handleSnapshot_def
      broadcastToClients_def trimAlerts_def Let_def)

lemma run_snapshot_notices:
  assumes "length (alerts st) \<le> 100"
  shows "\<exists>A P. run (replicate n snapshot_notice) st = st\<lparr>alerts := A, published := P\<rparr>
     \<and> length A = min 100 (length (alerts st) + n)"
  using assms
proof (induction n arbitrary: st)
  case 0
  have "st = st\<lparr>alerts := alerts st, published := published st\<rparr>" by simp
  with 0 show ?case by (auto intro!: exI [of _ "alerts st"] exI [of _ "published st"])
next
  case (Suc n)
  obtain A P where 1: "step snapshot_notice st = st\<lparr>alerts := A, published := P\<rparr>"
    and 2: "length A = min 100 (Suc (length (alerts st)))"
    using step_snapshot_notice by blast
  from 2 have "length (alerts (step snapshot_notice st)) \<le> 100" by (simp add: 1)
  from Suc.IH [OF this] obtain A' P' where
    3: "run (replicate n snapshot_notice) (step snapshot_notice st) =
          (step snapshot_notice st)\<lparr>alerts := A', published := P'\<rparr>"
    and 4: "length A' = min 100 (length (alerts (step snapshot_notice st)) + n)"
    by blast
  have "run (replicate (Suc n) snapshot_notice) st = st\<lparr>alerts := A', published := P'\<rparr>"
    by (simp add: 3) (simp add: 1)
  moreover have "length A' = min 100 (length (alerts st) + Suc n)"
    using 4 2 by (simp add: 1)
  ultimately show ?case by blast
qed

text \<open>
  C6, on an input where the code leaves the bound. With the ring at 100 alerts, a
  comparison of two complete snapshots whose analysis reports suspicious growth pushes
  its alert without trimming, and the ring holds 101 alerts.
\<close>

theorem C6_comparison_alert_exceeds_cap:
  "length (alerts (run (ready_snapshots @ replicate 100 snapshot_notice) new_dashboard)) = 100
 \<and> length (alerts (run (ready_snapshots @ replicate 100 snapshot_notice @
      [example_comparison, AnalysisDone 0 (Returned (basic_result 60)) 2000]) new_dashboard))
     = 101"
proof -
  let ?st0 = "run ready_snapshots new_dashboard"
  have "length (alerts ?st0) \<le> 100" by (simp add: exec_defs)
  from run_snapshot_notices [OF this, of 100] obtain A P where
    1: "run (replicate 100 snapshot_notice) ?st0 = ?st0\<lparr>alerts := A, published := P\<rparr>"
    and 2: "length A = min 100 (length (alerts ?st0) + 100)"
    by blast
  have 3: "length A = 100" using 2 by simp
  have "length (alerts (run [example_comparison, AnalysisDone 0 (Returned (basic_result 60)) 2000]
      (?st0\<lparr>alerts := A, published := P\<rparr>))) = Suc (length A)"
    by (simp add: exec_defs)
  with 1 3 show ?thesis by simp
qed

end
